theory Spec2Isabelle
  imports Complex_Main
begin

section \<open>Numbers, sorting and fetch outcomes shared by both dashboards\<close>

text \<open>
  The repository holds two dashboards built on one pattern: the watchlist dashboard
  (\<^verbatim>\<open>src/unnamed/part_000\<close>, which loads \<^verbatim>\<open>/watchlist.json\<close>) and Stock Buddy
  (\<^verbatim>\<open>src/stock-buddy/src/App.tsx\<close>, with a compiled-in list). Both are embedded
  below, the second with the suffix \<open>_sb\<close> where the names coincide.

  A JavaScript \<^verbatim>\<open>number\<close> that holds a price, a target or a percentage is modelled
  as a \<^typ>\<open>real\<close>: finite values with exact arithmetic. A field typed
  \<^verbatim>\<open>number | null\<close> (or an optional field) is a \<^typ>\<open>real option\<close>, with
  \<^verbatim>\<open>null\<close> and \<^verbatim>\<open>undefined\<close> both \<^const>\<open>None\<close>. The fields of a quote
  are taken to be numbers, as the interfaces of the source declare them.
\<close>

text \<open>
  \<^verbatim>\<open>if (target)\<close>: the truthiness of a \<^verbatim>\<open>number | null\<close>. \<^verbatim>\<open>null\<close>,
  \<^verbatim>\<open>undefined\<close> and \<^verbatim>\<open>0\<close> are falsy, every other finite number is truthy.
\<close>

definition truthy :: "real option \<Rightarrow> bool" where
  "truthy v = (case v of None \<Rightarrow> False | Some x \<Rightarrow> x \<noteq> 0)"

text \<open>
  \<^verbatim>\<open>Array.prototype.sort(comparefn)\<close> belongs to the language runtime, not to the
  repository. ECMAScript (2019 and later) requires it to be stable and, for a consistent
  comparison function, to return the elements in an order where \<open>comparefn a b \<le> 0\<close>
  for \<open>a\<close> before \<open>b\<close>. It is embedded as the stable insertion sort: an element goes in
  front of the first later element that does not compare smaller.
\<close>

fun insert_by :: "('a \<Rightarrow> 'a \<Rightarrow> int) \<Rightarrow> 'a \<Rightarrow> 'a list \<Rightarrow> 'a list" where
  "insert_by comparefn x [] = [x]"
| "insert_by comparefn x (y # ys) =
     (if comparefn x y \<le> 0 then x # y # ys else y # insert_by comparefn x ys)"

definition array_sort :: "('a \<Rightarrow> 'a \<Rightarrow> int) \<Rightarrow> 'a list \<Rightarrow> 'a list" where
  "array_sort comparefn xs = foldr (insert_by comparefn) xs []"

text \<open>
  What one \<^verbatim>\<open>fetch\<close> of the quote endpoint can produce. \<^verbatim>\<open>fetch\<close> rejects on a
  network failure; otherwise there is a response with an HTTP status, and
  \<^verbatim>\<open>response.json()\<close> rejects when the body is not JSON (\<open>NotJson\<close>). A body that
  parses either has the shape the dashboard reads (\<open>Quotes\<close>, the array of quote
  objects) or has not (\<open>WrongShape\<close>).
\<close>

datatype 'q body = NotJson | WrongShape | Quotes "'q list"

datatype 'q fetch_outcome = NetworkError | Response nat "'q body"

text \<open>\<^verbatim>\<open>response.ok\<close>: the status is in the range 200 to 299.\<close>

definition ok :: "nat \<Rightarrow> bool" where
  "ok code = (200 \<le> code \<and> code \<le> 299)"


section \<open>The watchlist dashboard (\<^verbatim>\<open>src/unnamed/part_000\<close>)\<close>

subsection \<open>Data model\<close>

text \<open>\<^verbatim>\<open>stopLoss: number | string | null\<close>\<close>

datatype stop_loss = StopPrice real | StopNote string

text \<open>\<^verbatim>\<open>interface WatchlistStock\<close> (lines 38 to 52).\<close>

record WatchlistStock =
  symbol :: string
  name :: string
  business :: string
  buyReason :: string
  targetEntry :: "real option"
  entryNote :: string
  holdPeriod :: string
  exitStrategy :: string
  stopLoss :: "stop_loss option"
  invalidIf :: "string option"
  catalyst :: "string option"
  source :: string
  priority :: real

text \<open>\<^verbatim>\<open>status: 'buy' | 'near' | 'watch' | 'alert'\<close>\<close>

datatype status = Buy | Near | Watch | Alert

text \<open>\<^verbatim>\<open>interface StockData extends WatchlistStock\<close> (lines 54 to 60).\<close>

record StockData = WatchlistStock +
  price :: real
  change :: real
  changePercent :: real
  status :: status
  distancePercent :: "real option"

text \<open>
  One element of the provider's response, with the four fields the dashboard reads:
  \<^verbatim>\<open>symbol\<close>, \<^verbatim>\<open>price\<close>, \<^verbatim>\<open>change\<close>, \<^verbatim>\<open>changesPercentage\<close>.
\<close>

record quote =
  quote_symbol :: string
  quote_price :: real
  quote_change :: real
  changesPercentage :: real

subsection \<open>Classification (lines 113 to 133)\<close>

text \<open>
  The body of the \<^verbatim>\<open>map\<close> callback once the watchlist entry is found: the two
  \<^verbatim>\<open>let\<close> variables with their defaults, the target branch, the alert rule that
  runs after it, and the object returned (the entry spread, then the five new fields).
\<close>

definition classify :: "WatchlistStock \<Rightarrow> quote \<Rightarrow> StockData" where
  "classify watchItem q =
     (let p = quote_price q;
          target = targetEntry watchItem;
          (status1, distance1) =
            (if truthy target
             then (let distance = ((p - the target) / the target) * 100
                   in (if p \<le> the target then Buy
                       else if distance \<le> 5 then Near
                       else Watch,
                       Some distance))
             else (Watch, None));
          status2 = (if changesPercentage q < - 5 then Alert else status1)
      in \<lparr> symbol = symbol watchItem,
           name = name watchItem,
           business = business watchItem,
           buyReason = buyReason watchItem,
           targetEntry = targetEntry watchItem,
           entryNote = entryNote watchItem,
           holdPeriod = holdPeriod watchItem,
           exitStrategy = exitStrategy watchItem,
           stopLoss = stopLoss watchItem,
           invalidIf = invalidIf watchItem,
           catalyst = catalyst watchItem,
           source = source watchItem,
           priority = priority watchItem,
           price = p,
           change = quote_change q,
           changePercent = changesPercentage q,
           status = status2,
           distancePercent = distance1 \<rparr>)"

text \<open>
  The whole callback (lines 109 to 134): \<^verbatim>\<open>watchlist.find\<close> returns the first entry
  with the quote's symbol; without one the callback returns \<^verbatim>\<open>null\<close>.
\<close>

definition classifyQuote :: "WatchlistStock list \<Rightarrow> quote \<Rightarrow> StockData option" where
  "classifyQuote wl q =
     (case List.find (\<lambda>w. symbol w = quote_symbol q) wl of
        None \<Rightarrow> None
      | Some watchItem \<Rightarrow> Some (classify watchItem q))"

text \<open>\<^verbatim>\<open>data.map(...).filter(item => item !== null)\<close> (lines 108 to 135).\<close>

definition results :: "WatchlistStock list \<Rightarrow> quote list \<Rightarrow> StockData list" where
  "results wl data = map the (filter (\<lambda>item. item \<noteq> None) (map (classifyQuote wl) data))"

subsection \<open>Ranking (lines 138 to 141)\<close>

text \<open>\<^verbatim>\<open>const priority = { buy: 0, alert: 1, near: 2, watch: 3 }\<close>\<close>

fun status_priority :: "status \<Rightarrow> int" where
  "status_priority Buy = 0"
| "status_priority Alert = 1"
| "status_priority Near = 2"
| "status_priority Watch = 3"

definition compare_status :: "StockData \<Rightarrow> StockData \<Rightarrow> int" where
  "compare_status a b = status_priority (status a) - status_priority (status b)"

definition rank :: "StockData list \<Rightarrow> StockData list" where
  "rank rs = array_sort compare_status rs"

subsection \<open>The component state and the fetch cycle (lines 66 to 148)\<close>

text \<open>
  The two banner texts of the source are Chinese strings; they are kept apart as
  constructors: \<open>WatchlistLoadFailed\<close> is the text set at line 82,
  \<open>QuoteFetchFailed\<close> the one set at line 145.
\<close>

datatype message = WatchlistLoadFailed | QuoteFetchFailed

text \<open>The six \<^verbatim>\<open>useState\<close> cells; a \<^verbatim>\<open>Date\<close> is a number of milliseconds.\<close>

record app_state =
  stocks :: "StockData list"
  loading :: bool
  lastUpdate :: "nat option"
  expandedSymbol :: "string option"
  watchlist :: "WatchlistStock list"
  error :: "message option"

definition initial_state :: app_state where
  "initial_state =
     \<lparr> stocks = [], loading = True, lastUpdate = None, expandedSymbol = None,
       watchlist = [], error = None \<rparr>"

text \<open>
  The effect that loads \<^verbatim>\<open>/watchlist.json\<close> (lines 74 to 84): \<^const>\<open>None\<close> is a
  failed load, \<open>Some ws\<close> the document's \<^verbatim>\<open>stocks\<close> array, stored as it is.
\<close>

definition loadWatchlist :: "WatchlistStock list option \<Rightarrow> app_state \<Rightarrow> app_state" where
  "loadWatchlist doc st =
     (case doc of
        Some ws \<Rightarrow> st\<lparr>watchlist := ws\<rparr>
      | None \<Rightarrow> st\<lparr>error := Some WatchlistLoadFailed\<rparr>)"

text \<open>
  The \<^verbatim>\<open>try\<close> block (lines 92 to 142) as a value: \<^const>\<open>None\<close> when something is
  thrown, else the list handed to \<^verbatim>\<open>setStocks\<close>.
\<close>

definition try_fetch :: "WatchlistStock list \<Rightarrow> quote fetch_outcome \<Rightarrow> StockData list option" where
  "try_fetch wl outcome =
     (case outcome of
        NetworkError \<Rightarrow> None
      | Response code b \<Rightarrow>
          if \<not> ok code then None
          else (case b of
                  NotJson \<Rightarrow> None
                | WrongShape \<Rightarrow> None
                | Quotes data \<Rightarrow>
                    if length data = 0 then None
                    else Some (rank (results wl data))))"

text \<open>
  \<^verbatim>\<open>fetchStockData\<close> (lines 86 to 148), with the outcome of the request and the
  clock reading of \<^verbatim>\<open>new Date()\<close> as inputs.
\<close>

definition fetchStockData :: "quote fetch_outcome \<Rightarrow> nat \<Rightarrow> app_state \<Rightarrow> app_state" where
  "fetchStockData outcome now st =
     (if length (watchlist st) = 0 then st
      else (let st1 = st\<lparr>loading := True, error := None\<rparr>;
                st2 = (case try_fetch (watchlist st1) outcome of
                         Some ranked \<Rightarrow> st1\<lparr>stocks := ranked, lastUpdate := Some now\<rparr>
                       | None \<Rightarrow> st1\<lparr>error := Some QuoteFetchFailed\<rparr>)
            in st2\<lparr>loading := False\<rparr>))"


section \<open>Stock Buddy (\<^verbatim>\<open>src/stock-buddy/src/App.tsx\<close>)\<close>

subsection \<open>Data model\<close>

text \<open>An element of \<^verbatim>\<open>WATCHLIST\<close>: \<^verbatim>\<open>{ symbol, target }\<close>.\<close>

record WatchItem =
  item_symbol :: string
  item_target :: "real option"

text \<open>\<^verbatim>\<open>const WATCHLIST\<close> (lines 14 to 25).\<close>

definition WATCHLIST :: "WatchItem list" where
  "WATCHLIST =
     [ \<lparr> item_symbol = ''NVDA'', item_target = Some 169 \<rparr>,
       \<lparr> item_symbol = ''AMD'', item_target = Some 246 \<rparr>,
       \<lparr> item_symbol = ''IONQ'', item_target = Some 36 \<rparr>,
       \<lparr> item_symbol = ''EOSE'', item_target = Some 13 \<rparr>,
       \<lparr> item_symbol = ''KEYS'', item_target = Some 216 \<rparr>,
       \<lparr> item_symbol = ''AVGO'', item_target = None \<rparr>,
       \<lparr> item_symbol = ''MSFT'', item_target = None \<rparr>,
       \<lparr> item_symbol = ''GOOG'', item_target = None \<rparr>,
       \<lparr> item_symbol = ''TSLA'', item_target = None \<rparr>,
       \<lparr> item_symbol = ''QLD'', item_target = None \<rparr> ]"

text \<open>\<^verbatim>\<open>status: 'buy' | 'watch' | 'hold' | 'alert'\<close>\<close>

datatype status_sb = Buy_sb | Watch_sb | Hold_sb | Alert_sb

text \<open>\<^verbatim>\<open>interface StockData\<close> (lines 4 to 11).\<close>

record StockData_sb =
  symbol_sb :: string
  price_sb :: real
  change_sb :: real
  changePercent_sb :: real
  target_sb :: "real option"
  status_sb :: status_sb

text \<open>
  One element of \<^verbatim>\<open>data.quoteResponse.result\<close>, with the four fields read:
  \<^verbatim>\<open>symbol\<close>, \<^verbatim>\<open>regularMarketPrice\<close>, \<^verbatim>\<open>regularMarketChange\<close>,
  \<^verbatim>\<open>regularMarketChangePercent\<close>.
\<close>

record quote_sb =
  quote_symbol_sb :: string
  regularMarketPrice :: real
  regularMarketChange :: real
  regularMarketChangePercent :: real

subsection \<open>Classification (lines 42 to 62)\<close>

text \<open>
  The body of the \<^verbatim>\<open>map\<close> callback after the lookup. The entry may be missing:
  \<^verbatim>\<open>watchItem?.target\<close> is then \<^verbatim>\<open>undefined\<close>, and the object returned takes its
  symbol from the quote.
\<close>

definition classify_sb :: "WatchItem option \<Rightarrow> quote_sb \<Rightarrow> StockData_sb" where
  "classify_sb watchItem q =
     (let p = regularMarketPrice q;
          target = (case watchItem of None \<Rightarrow> None | Some w \<Rightarrow> item_target w);
          status1 =
            (if truthy target
             then (if p \<le> the target then Buy_sb
                   else if p \<le> the target * 1.05 then Watch_sb
                   else Hold_sb)
             else Hold_sb);
          status2 = (if regularMarketChangePercent q < - 5 then Alert_sb else status1)
      in \<lparr> symbol_sb = quote_symbol_sb q,
           price_sb = p,
           change_sb = regularMarketChange q,
           changePercent_sb = regularMarketChangePercent q,
           target_sb = target,
           status_sb = status2 \<rparr>)"

text \<open>\<^verbatim>\<open>data.quoteResponse.result.map(...)\<close>, every quote giving one element.\<close>

definition results_sb :: "quote_sb list \<Rightarrow> StockData_sb list" where
  "results_sb data =
     map (\<lambda>q. classify_sb (List.find (\<lambda>w. item_symbol w = quote_symbol_sb q) WATCHLIST) q) data"

subsection \<open>Ranking (lines 64 to 68)\<close>

text \<open>\<^verbatim>\<open>const priority = { buy: 0, alert: 1, watch: 2, hold: 3 }\<close>\<close>

fun status_priority_sb :: "status_sb \<Rightarrow> int" where
  "status_priority_sb Buy_sb = 0"
| "status_priority_sb Alert_sb = 1"
| "status_priority_sb Watch_sb = 2"
| "status_priority_sb Hold_sb = 3"

definition compare_status_sb :: "StockData_sb \<Rightarrow> StockData_sb \<Rightarrow> int" where
  "compare_status_sb a b = status_priority_sb (status_sb a) - status_priority_sb (status_sb b)"

definition rank_sb :: "StockData_sb list \<Rightarrow> StockData_sb list" where
  "rank_sb rs = array_sort compare_status_sb rs"

subsection \<open>The component state and the fetch cycle (lines 28 to 83)\<close>

record app_state_sb =
  stocks_sb :: "StockData_sb list"
  loading_sb :: bool
  lastUpdate_sb :: "nat option"

definition initial_state_sb :: app_state_sb where
  "initial_state_sb = \<lparr> stocks_sb = [], loading_sb = True, lastUpdate_sb = None \<rparr>"

text \<open>
  The fallback of the \<^verbatim>\<open>catch\<close> block (lines 73 to 80). \<^verbatim>\<open>Math.random()\<close> is
  an input: \<open>rnd k\<close> is the value of the \<open>k\<close>-th call, and the entry at index \<open>i\<close>
  makes the calls \<open>3 * i\<close>, \<open>3 * i + 1\<close> and \<open>3 * i + 2\<close>, in the order of its fields.
\<close>

definition mock_entry :: "(nat \<Rightarrow> real) \<Rightarrow> nat \<times> WatchItem \<Rightarrow> StockData_sb" where
  "mock_entry rnd iw =
     (case iw of (i, w) \<Rightarrow>
        \<lparr> symbol_sb = item_symbol w,
          price_sb = rnd (3 * i) * 300 + 50,
          change_sb = (rnd (3 * i + 1) - 0.5) * 20,
          changePercent_sb = (rnd (3 * i + 2) - 0.5) * 10,
          target_sb = item_target w,
          status_sb = Hold_sb \<rparr>)"

definition mock_data :: "(nat \<Rightarrow> real) \<Rightarrow> StockData_sb list" where
  "mock_data rnd = map (mock_entry rnd) (enumerate 0 WATCHLIST)"

text \<open>
  The \<^verbatim>\<open>try\<close> block (lines 35 to 69): no status check, and an empty result array
  is mapped and sorted like any other.
\<close>

definition try_fetch_sb :: "quote_sb fetch_outcome \<Rightarrow> StockData_sb list option" where
  "try_fetch_sb outcome =
     (case outcome of
        NetworkError \<Rightarrow> None
      | Response code b \<Rightarrow>
          (case b of
             NotJson \<Rightarrow> None
           | WrongShape \<Rightarrow> None
           | Quotes data \<Rightarrow> Some (rank_sb (results_sb data))))"

definition fetchStockData_sb ::
    "quote_sb fetch_outcome \<Rightarrow> nat \<Rightarrow> (nat \<Rightarrow> real) \<Rightarrow> app_state_sb \<Rightarrow> app_state_sb" where
  "fetchStockData_sb outcome now rnd st =
     (let st1 = st\<lparr>loading_sb := True\<rparr>;
          st2 = (case try_fetch_sb outcome of
                   Some ranked \<Rightarrow> st1\<lparr>stocks_sb := ranked, lastUpdate_sb := Some now\<rparr>
                 | None \<Rightarrow> st1\<lparr>stocks_sb := mock_data rnd\<rparr>)
      in st2\<lparr>loading_sb := False\<rparr>)"


section \<open>Sample inputs\<close>

text \<open>
  A watchlist entry with the given symbol and target and blank descriptive fields, and a
  quote with the given symbol, price and percentage change, for both dashboards.
\<close>

definition sample_entry :: "string \<Rightarrow> real option \<Rightarrow> WatchlistStock" where
  "sample_entry s t =
     \<lparr> symbol = s, name = [], business = [], buyReason = [], targetEntry = t,
       entryNote = [], holdPeriod = [], exitStrategy = [], stopLoss = None,
       invalidIf = None, catalyst = None, source = [], priority = 1 \<rparr>"

definition sample_quote :: "string \<Rightarrow> real \<Rightarrow> real \<Rightarrow> quote" where
  "sample_quote s p c =
     \<lparr> quote_symbol = s, quote_price = p, quote_change = 0, changesPercentage = c \<rparr>"

definition sample_quote_sb :: "string \<Rightarrow> real \<Rightarrow> real \<Rightarrow> quote_sb" where
  "sample_quote_sb s p c =
     \<lparr> quote_symbol_sb = s, regularMarketPrice = p, regularMarketChange = 0,
       regularMarketChangePercent = c \<rparr>"

text \<open>
  Five classified entries in the order of a provider's response: two of the default
  tier, an alert, a near one and a buy; and the same for Stock Buddy.
\<close>

definition sample_results :: "StockData list" where
  "sample_results =
     [ classify (sample_entry ''MSFT'' None) (sample_quote ''MSFT'' 420 0.8),
       classify (sample_entry ''IONQ'' (Some 36)) (sample_quote ''IONQ'' 37 (- 7)),
       classify (sample_entry ''AMD'' (Some 246)) (sample_quote ''AMD'' 255 0.5),
       classify (sample_entry ''TSLA'' None) (sample_quote ''TSLA'' 410 0.3),
       classify (sample_entry ''NVDA'' (Some 169)) (sample_quote ''NVDA'' 165 1.2) ]"

definition sample_data_sb :: "quote_sb list" where
  "sample_data_sb =
     [ sample_quote_sb ''MSFT'' 420 0.8,
       sample_quote_sb ''IONQ'' 37 (- 7),
       sample_quote_sb ''AMD'' 255 0.5,
       sample_quote_sb ''TSLA'' 410 0.3,
       sample_quote_sb ''NVDA'' 165 1.2 ]"


text \<open>A run of \<^verbatim>\<open>Math.random()\<close> in which every call returns one half.\<close>

definition sample_random :: "nat \<Rightarrow> real" where
  "sample_random k = 1 / 2"

text \<open>
  The watchlist dashboard after loading a one-entry watchlist and one successful cycle.
\<close>

definition sample_state :: app_state where
  "sample_state =
     fetchStockData (Response 200 (Quotes [sample_quote ''NVDA'' 165 1.2])) 1
       (loadWatchlist (Some [sample_entry ''NVDA'' (Some 169)]) initial_state)"


section \<open>Classification\<close>

subsection \<open>The status and the distance in closed form\<close>

lemma classify_status:
  "status (classify w q) =
     (if changesPercentage q < - 5 then Alert
      else if truthy (targetEntry w)
           then (if quote_price q \<le> the (targetEntry w) then Buy
                 else if ((quote_price q - the (targetEntry w)) / the (targetEntry w)) * 100 \<le> 5
                      then Near
                 else Watch)
           else Watch)"
  by (simp add: classify_def Let_def)

lemma classify_distance:
  "distancePercent (classify w q) =
     (if truthy (targetEntry w)
      then Some (((quote_price q - the (targetEntry w)) / the (targetEntry w)) * 100)
      else None)"
  by (simp add: classify_def Let_def)

lemma classify_sb_status:
  "status_sb (classify_sb wi q) =
     (if regularMarketChangePercent q < - 5 then Alert_sb
      else if truthy (case wi of None \<Rightarrow> None | Some w \<Rightarrow> item_target w)
           then (if regularMarketPrice q \<le> the (case wi of None \<Rightarrow> None | Some w \<Rightarrow> item_target w)
                 then Buy_sb
                 else if regularMarketPrice q
                           \<le> the (case wi of None \<Rightarrow> None | Some w \<Rightarrow> item_target w) * 1.05
                      then Watch_sb
                 else Hold_sb)
           else Hold_sb)"
  by (simp add: classify_sb_def Let_def)

lemma near_band_iff:
  fixes p T :: real
  assumes "0 < T"
  shows "((p - T) / T) * 100 \<le> 5 \<longleftrightarrow> p \<le> T * 1.05"
proof -
  have "((p - T) / T) * 100 \<le> 5 \<longleftrightarrow> (p - T) * 100 \<le> 5 * T"
    using assms by (simp add: pos_divide_le_eq mult.commute)
  also have "\<dots> \<longleftrightarrow> p \<le> T * 1.05"
    by (simp add: algebra_simps)
  finally show ?thesis .
qed

subsection \<open>The target rules and the alert rule\<close>

text \<open>
  The target rule alone does not settle the status. With the target reached
  (\<open>165 \<le> 169\<close>) and a fall of 7 percent on the day, both dashboards show the alert,
  not the buy signal.
\<close>

theorem target_buy_counterexample:
  "targetEntry (sample_entry ''NVDA'' (Some 169)) = Some 169 \<and> (0::real) < 169
   \<and> quote_price (sample_quote ''NVDA'' 165 (- 7)) \<le> 169
   \<and> status (classify (sample_entry ''NVDA'' (Some 169)) (sample_quote ''NVDA'' 165 (- 7))) = Alert
   \<and> status (classify (sample_entry ''NVDA'' (Some 169)) (sample_quote ''NVDA'' 165 (- 7))) \<noteq> Buy
   \<and> item_target \<lparr> item_symbol = ''NVDA'', item_target = Some 169 \<rparr> = Some 169
   \<and> regularMarketPrice (sample_quote_sb ''NVDA'' 165 (- 7)) \<le> 169
   \<and> status_sb (classify_sb (Some \<lparr> item_symbol = ''NVDA'', item_target = Some 169 \<rparr>)
                  (sample_quote_sb ''NVDA'' 165 (- 7))) = Alert_sb"
  by (simp add: classify_status classify_sb_status truthy_def sample_entry_def sample_quote_def
      sample_quote_sb_def)

text \<open>
  C1, as amended. For an entry with target \<open>T > 0\<close> and a quote with \<open>price \<le> T\<close>
  whose change on the day is not below \<open>-5\<close> percent, the status is buy, in both
  dashboards.
\<close>

theorem target_buy_unless_alert:
  "(targetEntry w = Some T \<and> 0 < T \<and> quote_price q \<le> T \<and> - 5 \<le> changesPercentage q
      \<longrightarrow> status (classify w q) = Buy)
   \<and> (item_target wi = Some T' \<and> 0 < T' \<and> regularMarketPrice y \<le> T'
        \<and> - 5 \<le> regularMarketChangePercent y
      \<longrightarrow> status_sb (classify_sb (Some wi) y) = Buy_sb)"
  by (simp add: classify_status classify_sb_status truthy_def)

theorem target_buy_unless_alert_witness:
  "targetEntry (sample_entry ''NVDA'' (Some 169)) = Some 169 \<and> (0::real) < 169
   \<and> quote_price (sample_quote ''NVDA'' 165 1.2) \<le> 169
   \<and> - 5 \<le> changesPercentage (sample_quote ''NVDA'' 165 1.2)
   \<and> status (classify (sample_entry ''NVDA'' (Some 169)) (sample_quote ''NVDA'' 165 1.2)) = Buy
   \<and> item_target \<lparr> item_symbol = ''NVDA'', item_target = Some 169 \<rparr> = Some 169
   \<and> regularMarketPrice (sample_quote_sb ''NVDA'' 165 1.2) \<le> 169
   \<and> - 5 \<le> regularMarketChangePercent (sample_quote_sb ''NVDA'' 165 1.2)
   \<and> status_sb (classify_sb (Some \<lparr> item_symbol = ''NVDA'', item_target = Some 169 \<rparr>)
                  (sample_quote_sb ''NVDA'' 165 1.2)) = Buy_sb"
  using target_buy_unless_alert [of "sample_entry ''NVDA'' (Some 169)" 169
      "sample_quote ''NVDA'' 165 1.2" "\<lparr> item_symbol = ''NVDA'', item_target = Some 169 \<rparr>" 169
      "sample_quote_sb ''NVDA'' 165 1.2"]
  by (simp add: sample_entry_def sample_quote_def sample_quote_sb_def)

text \<open>
  C2. A quote with a change below \<open>-5\<close> percent gets the status alert, whatever the
  entry: with a target reached, a target near, a target far, no target, or (in Stock
  Buddy) no entry at all.
\<close>

theorem alert_override:
  "(changesPercentage q < - 5 \<longrightarrow> status (classify w q) = Alert)
   \<and> (regularMarketChangePercent y < - 5 \<longrightarrow> status_sb (classify_sb wi y) = Alert_sb)"
  by (simp add: classify_status classify_sb_status)

theorem alert_override_witness:
  "changesPercentage (sample_quote ''IONQ'' 37 (- 7)) < - 5
   \<and> status (classify (sample_entry ''IONQ'' (Some 36)) (sample_quote ''IONQ'' 37 (- 7))) = Alert
   \<and> status (classify (sample_entry ''IONQ'' (Some 36)) (sample_quote ''IONQ'' 37 0)) = Near
   \<and> regularMarketChangePercent (sample_quote_sb ''IONQ'' 37 (- 7)) < - 5
   \<and> status_sb (classify_sb (Some \<lparr> item_symbol = ''IONQ'', item_target = Some 36 \<rparr>)
                  (sample_quote_sb ''IONQ'' 37 (- 7))) = Alert_sb
   \<and> status_sb (classify_sb (Some \<lparr> item_symbol = ''IONQ'', item_target = Some 36 \<rparr>)
                  (sample_quote_sb ''IONQ'' 37 0)) = Watch_sb"
  using alert_override [of "sample_quote ''IONQ'' 37 (- 7)" "sample_entry ''IONQ'' (Some 36)"
      "sample_quote_sb ''IONQ'' 37 (- 7)"
      "Some \<lparr> item_symbol = ''IONQ'', item_target = Some 36 \<rparr>"]
  by (simp add: classify_status classify_sb_status truthy_def sample_entry_def sample_quote_def
      sample_quote_sb_def)

text \<open>
  C3. For an entry with target \<open>T > 0\<close> and a quote with \<open>T < price\<close>,
  \<open>(price - T) / T * 100 \<le> 5\<close> and a change of at least \<open>-5\<close> percent, the status is
  the near tier: \<open>near\<close> in the watchlist dashboard, \<open>watch\<close> in Stock Buddy (which
  tests \<open>price \<le> T * 1.05\<close>, the same condition for a positive target).
\<close>

theorem near_band:
  "(targetEntry w = Some T \<and> 0 < T \<and> T < quote_price q \<and> ((quote_price q - T) / T) * 100 \<le> 5
        \<and> - 5 \<le> changesPercentage q
      \<longrightarrow> status (classify w q) = Near)
   \<and> (item_target wi = Some T' \<and> 0 < T' \<and> T' < regularMarketPrice y
        \<and> ((regularMarketPrice y - T') / T') * 100 \<le> 5 \<and> - 5 \<le> regularMarketChangePercent y
      \<longrightarrow> status_sb (classify_sb (Some wi) y) = Watch_sb)"
proof (intro conjI impI)
  assume "targetEntry w = Some T \<and> 0 < T \<and> T < quote_price q
    \<and> ((quote_price q - T) / T) * 100 \<le> 5 \<and> - 5 \<le> changesPercentage q"
  then show "status (classify w q) = Near"
    by (simp add: classify_status truthy_def)
next
  assume h: "item_target wi = Some T' \<and> 0 < T' \<and> T' < regularMarketPrice y
    \<and> ((regularMarketPrice y - T') / T') * 100 \<le> 5 \<and> - 5 \<le> regularMarketChangePercent y"
  then have "regularMarketPrice y \<le> T' * 1.05"
    using near_band_iff [of T' "regularMarketPrice y"] by simp
  with h show "status_sb (classify_sb (Some wi) y) = Watch_sb"
    by (simp add: classify_sb_status truthy_def)
qed

theorem near_band_witness:
  "targetEntry (sample_entry ''AMD'' (Some 246)) = Some 246 \<and> (0::real) < 246
   \<and> 246 < quote_price (sample_quote ''AMD'' 255 0.5)
   \<and> ((quote_price (sample_quote ''AMD'' 255 0.5) - 246) / 246) * 100 \<le> 5
   \<and> - 5 \<le> changesPercentage (sample_quote ''AMD'' 255 0.5)
   \<and> status (classify (sample_entry ''AMD'' (Some 246)) (sample_quote ''AMD'' 255 0.5)) = Near
   \<and> 246 < regularMarketPrice (sample_quote_sb ''AMD'' 255 0.5)
   \<and> ((regularMarketPrice (sample_quote_sb ''AMD'' 255 0.5) - 246) / 246) * 100 \<le> 5
   \<and> - 5 \<le> regularMarketChangePercent (sample_quote_sb ''AMD'' 255 0.5)
   \<and> status_sb (classify_sb (Some \<lparr> item_symbol = ''AMD'', item_target = Some 246 \<rparr>)
                  (sample_quote_sb ''AMD'' 255 0.5)) = Watch_sb"
  using near_band [of "sample_entry ''AMD'' (Some 246)" 246 "sample_quote ''AMD'' 255 0.5"
      "\<lparr> item_symbol = ''AMD'', item_target = Some 246 \<rparr>" 246 "sample_quote_sb ''AMD'' 255 0.5"]
  by (simp add: sample_entry_def sample_quote_def sample_quote_sb_def)

text \<open>
  C4. An entry without a target never gets buy or near: its status is the default tier
  (\<open>watch\<close>, in Stock Buddy \<open>hold\<close>) when the change is at least \<open>-5\<close> percent, and
  alert below that. In Stock Buddy the same holds for a quote without an entry.
\<close>

theorem no_target_default:
  "(targetEntry w = None
      \<longrightarrow> status (classify w q) = (if changesPercentage q < - 5 then Alert else Watch)
          \<and> status (classify w q) \<noteq> Buy \<and> status (classify w q) \<noteq> Near)
   \<and> (wi = None \<or> (\<exists>i. wi = Some i \<and> item_target i = None)
      \<longrightarrow> status_sb (classify_sb wi y)
            = (if regularMarketChangePercent y < - 5 then Alert_sb else Hold_sb)
          \<and> status_sb (classify_sb wi y) \<noteq> Buy_sb \<and> status_sb (classify_sb wi y) \<noteq> Watch_sb)"
  by (auto simp add: classify_status classify_sb_status truthy_def split: option.splits)

theorem no_target_default_witness:
  "targetEntry (sample_entry ''MSFT'' None) = None
   \<and> status (classify (sample_entry ''MSFT'' None) (sample_quote ''MSFT'' 420 0.8)) = Watch
   \<and> distancePercent (classify (sample_entry ''MSFT'' None) (sample_quote ''MSFT'' 420 0.8)) = None
   \<and> item_target \<lparr> item_symbol = ''MSFT'', item_target = None \<rparr> = None
   \<and> status_sb (classify_sb (Some \<lparr> item_symbol = ''MSFT'', item_target = None \<rparr>)
                  (sample_quote_sb ''MSFT'' 420 0.8)) = Hold_sb"
  using no_target_default [of "sample_entry ''MSFT'' None" "sample_quote ''MSFT'' 420 0.8"
      "Some \<lparr> item_symbol = ''MSFT'', item_target = None \<rparr>" "sample_quote_sb ''MSFT'' 420 0.8"]
  by (simp add: classify_distance truthy_def sample_entry_def sample_quote_def sample_quote_sb_def)

subsection \<open>The distance to the target\<close>

text \<open>
  An entry may carry the target \<open>0\<close>. The guard \<^verbatim>\<open>if (target)\<close> takes it for no
  target, so the distance stays \<^verbatim>\<open>null\<close> although the entry has a target.
\<close>

theorem distance_zero_target_counterexample:
  "targetEntry (sample_entry ''EOSE'' (Some 0)) = Some 0
   \<and> distancePercent (classify (sample_entry ''EOSE'' (Some 0)) (sample_quote ''EOSE'' 13 1)) = None"
  by (simp add: classify_distance truthy_def sample_entry_def)

text \<open>
  C5, as amended. For an entry with a nonzero target the watchlist dashboard sets
  \<open>distancePercent = (price - target) / target * 100\<close>; for an entry without a target,
  or with the target \<open>0\<close>, \<open>distancePercent\<close> is \<^verbatim>\<open>null\<close>.
\<close>

theorem distance_percent:
  "(targetEntry w = Some T \<and> T \<noteq> 0
      \<longrightarrow> distancePercent (classify w q) = Some (((quote_price q - T) / T) * 100))
   \<and> (targetEntry w = None \<or> targetEntry w = Some 0 \<longrightarrow> distancePercent (classify w q) = None)"
  by (auto simp add: classify_distance truthy_def)

theorem distance_percent_witness:
  "targetEntry (sample_entry ''NVDA'' (Some 169)) = Some 169 \<and> (169::real) \<noteq> 0
   \<and> distancePercent (classify (sample_entry ''NVDA'' (Some 169)) (sample_quote ''NVDA'' 165 1.2))
       = Some (- (400 / 169))
   \<and> targetEntry (sample_entry ''MSFT'' None) = None
   \<and> distancePercent (classify (sample_entry ''MSFT'' None) (sample_quote ''NVDA'' 165 1.2)) = None"
  using distance_percent [of "sample_entry ''NVDA'' (Some 169)" 169 "sample_quote ''NVDA'' 165 1.2"]
    distance_percent [of "sample_entry ''MSFT'' None" 0 "sample_quote ''NVDA'' 165 1.2"]
  by (simp add: sample_entry_def sample_quote_def)

text \<open>
  C10. An entry with target \<open>0\<close> skips the target branch: it has the status of the same
  entry without a target (default tier, or alert) and a \<^verbatim>\<open>null\<close> distance. Whenever a
  distance is produced, the divisor was a nonzero target. Stock Buddy treats the target
  \<open>0\<close> like a missing one as well. Loading stores the document's entries as they are, so
  an entry with target \<open>0\<close> is not rejected.
\<close>

theorem zero_target_skips_division:
  "(targetEntry w = Some 0
      \<longrightarrow> status (classify w q) = status (classify (w\<lparr>targetEntry := None\<rparr>) q)
          \<and> status (classify w q) = (if changesPercentage q < - 5 then Alert else Watch)
          \<and> distancePercent (classify w q) = None)
   \<and> (distancePercent (classify w q) \<noteq> None \<longrightarrow> (\<exists>T. targetEntry w = Some T \<and> T \<noteq> 0))
   \<and> (item_target wi = Some 0
      \<longrightarrow> status_sb (classify_sb (Some wi) y) = status_sb (classify_sb None y)
          \<and> status_sb (classify_sb (Some wi) y)
              = (if regularMarketChangePercent y < - 5 then Alert_sb else Hold_sb))
   \<and> watchlist (loadWatchlist (Some ws) st) = ws"
  by (auto simp add: classify_status classify_distance classify_sb_status truthy_def
      loadWatchlist_def split: option.splits)

theorem zero_target_skips_division_witness:
  "targetEntry (sample_entry ''EOSE'' (Some 0)) = Some 0
   \<and> status (classify (sample_entry ''EOSE'' (Some 0)) (sample_quote ''EOSE'' 13 1)) = Watch
   \<and> distancePercent (classify (sample_entry ''NVDA'' (Some 169)) (sample_quote ''NVDA'' 165 1.2))
       \<noteq> None
   \<and> status_sb (classify_sb (Some \<lparr> item_symbol = ''EOSE'', item_target = Some 0 \<rparr>)
                  (sample_quote_sb ''EOSE'' 13 1)) = Hold_sb
   \<and> stocks (fetchStockData (Response 200 (Quotes [sample_quote ''EOSE'' 13 1])) 7
        (loadWatchlist (Some [sample_entry ''EOSE'' (Some 0)]) initial_state))
       = [classify (sample_entry ''EOSE'' (Some 0)) (sample_quote ''EOSE'' 13 1)]"
  using zero_target_skips_division [of "sample_entry ''EOSE'' (Some 0)" "sample_quote ''EOSE'' 13 1"
      "\<lparr> item_symbol = ''EOSE'', item_target = Some 0 \<rparr>" "sample_quote_sb ''EOSE'' 13 1"
      "[sample_entry ''EOSE'' (Some 0)]" initial_state]
    zero_target_skips_division [of "sample_entry ''NVDA'' (Some 169)" "sample_quote ''NVDA'' 165 1.2"
      "\<lparr> item_symbol = ''EOSE'', item_target = Some 0 \<rparr>" "sample_quote_sb ''EOSE'' 13 1"
      "[sample_entry ''EOSE'' (Some 0)]" initial_state]
  by (simp add: classify_status classify_distance classify_sb_status truthy_def fetchStockData_def try_fetch_def ok_def results_def
      classifyQuote_def rank_def array_sort_def loadWatchlist_def initial_state_def
      sample_entry_def sample_quote_def sample_quote_sb_def Let_def)


section \<open>Ranking\<close>

subsection \<open>The sort as a stable sort by the priority\<close>

lemma insert_by_key:
  "insert_by (\<lambda>a b. f a - f b) x ys = insort_key f x ys"
  by (induction ys) simp_all

lemma array_sort_key:
  "array_sort (\<lambda>a b. f a - f b) xs = sort_key f xs"
  by (induction xs) (simp_all add: array_sort_def insert_by_key)

lemma rank_sort_key: "rank rs = sort_key (\<lambda>s. status_priority (status s)) rs"
  unfolding rank_def
  using array_sort_key [of "\<lambda>s. status_priority (status s)" rs]
  by (simp add: compare_status_def [abs_def])

lemma rank_sb_sort_key: "rank_sb rs = sort_key (\<lambda>s. status_priority_sb (status_sb s)) rs"
  unfolding rank_sb_def
  using array_sort_key [of "\<lambda>s. status_priority_sb (status_sb s)" rs]
  by (simp add: compare_status_sb_def [abs_def])

lemma status_priority_inj: "status_priority a = status_priority b \<longleftrightarrow> a = b"
  by (cases a; cases b) simp_all

lemma status_priority_sb_inj: "status_priority_sb a = status_priority_sb b \<longleftrightarrow> a = b"
  by (cases a; cases b) simp_all

lemma rank_filter: "filter (\<lambda>s. status s = k) (rank rs) = filter (\<lambda>s. status s = k) rs"
proof -
  have "filter (\<lambda>s. status_priority (status s) = status_priority k) (rank rs)
      = filter (\<lambda>s. status_priority (status s) = status_priority k) rs"
    unfolding rank_sort_key by (rule sort_key_stable)
  then show ?thesis by (simp add: status_priority_inj)
qed

lemma rank_sb_filter:
  "filter (\<lambda>s. status_sb s = k) (rank_sb rs) = filter (\<lambda>s. status_sb s = k) rs"
proof -
  have "filter (\<lambda>s. status_priority_sb (status_sb s) = status_priority_sb k) (rank_sb rs)
      = filter (\<lambda>s. status_priority_sb (status_sb s) = status_priority_sb k) rs"
    unfolding rank_sb_sort_key by (rule sort_key_stable)
  then show ?thesis by (simp add: status_priority_sb_inj)
qed

subsection \<open>A list in priority order is its four status groups in a row\<close>

lemma sorted_by_status:
  assumes "sorted (map (\<lambda>s. status_priority (status s)) xs)"
  shows "xs = filter (\<lambda>s. status s = Buy) xs @ filter (\<lambda>s. status s = Alert) xs
            @ filter (\<lambda>s. status s = Near) xs @ filter (\<lambda>s. status s = Watch) xs"
  using assms
proof (induction xs)
  case Nil
  then show ?case by simp
next
  case (Cons y ys)
  then have ih: "ys = filter (\<lambda>s. status s = Buy) ys @ filter (\<lambda>s. status s = Alert) ys
            @ filter (\<lambda>s. status s = Near) ys @ filter (\<lambda>s. status s = Watch) ys"
    by simp
  from Cons.prems have le: "\<forall>z \<in> set ys. status_priority (status y) \<le> status_priority (status z)"
    by simp
  show ?case
  proof (cases "status y")
    case Buy
    with ih show ?thesis by simp
  next
    case Alert
    with le have "\<forall>z \<in> set ys. status z \<noteq> Buy" by fastforce
    then have "filter (\<lambda>s. status s = Buy) ys = []" by (simp add: filter_empty_conv)
    with Alert ih show ?thesis by simp
  next
    case Near
    with le have "\<forall>z \<in> set ys. status z \<noteq> Buy \<and> status z \<noteq> Alert" by fastforce
    then have "filter (\<lambda>s. status s = Buy) ys = []" "filter (\<lambda>s. status s = Alert) ys = []"
      by (simp_all add: filter_empty_conv)
    with Near ih show ?thesis by simp
  next
    case Watch
    with le have "\<forall>z \<in> set ys. status z \<noteq> Buy \<and> status z \<noteq> Alert \<and> status z \<noteq> Near"
      by fastforce
    then have "filter (\<lambda>s. status s = Buy) ys = []" "filter (\<lambda>s. status s = Alert) ys = []"
      "filter (\<lambda>s. status s = Near) ys = []"
      by (simp_all add: filter_empty_conv)
    with Watch ih show ?thesis by simp
  qed
qed

lemma sorted_by_status_sb:
  assumes "sorted (map (\<lambda>s. status_priority_sb (status_sb s)) xs)"
  shows "xs = filter (\<lambda>s. status_sb s = Buy_sb) xs @ filter (\<lambda>s. status_sb s = Alert_sb) xs
            @ filter (\<lambda>s. status_sb s = Watch_sb) xs @ filter (\<lambda>s. status_sb s = Hold_sb) xs"
  using assms
proof (induction xs)
  case Nil
  then show ?case by simp
next
  case (Cons y ys)
  then have ih: "ys = filter (\<lambda>s. status_sb s = Buy_sb) ys @ filter (\<lambda>s. status_sb s = Alert_sb) ys
            @ filter (\<lambda>s. status_sb s = Watch_sb) ys @ filter (\<lambda>s. status_sb s = Hold_sb) ys"
    by simp
  from Cons.prems
  have le: "\<forall>z \<in> set ys. status_priority_sb (status_sb y) \<le> status_priority_sb (status_sb z)"
    by simp
  show ?case
  proof (cases "status_sb y")
    case Buy_sb
    with ih show ?thesis by simp
  next
    case Alert_sb
    with le have "\<forall>z \<in> set ys. status_sb z \<noteq> Buy_sb" by fastforce
    then have "filter (\<lambda>s. status_sb s = Buy_sb) ys = []" by (simp add: filter_empty_conv)
    with Alert_sb ih show ?thesis by simp
  next
    case Watch_sb
    with le have "\<forall>z \<in> set ys. status_sb z \<noteq> Buy_sb \<and> status_sb z \<noteq> Alert_sb" by fastforce
    then have "filter (\<lambda>s. status_sb s = Buy_sb) ys = []"
      "filter (\<lambda>s. status_sb s = Alert_sb) ys = []"
      by (simp_all add: filter_empty_conv)
    with Watch_sb ih show ?thesis by simp
  next
    case Hold_sb
    with le
    have "\<forall>z \<in> set ys. status_sb z \<noteq> Buy_sb \<and> status_sb z \<noteq> Alert_sb \<and> status_sb z \<noteq> Watch_sb"
      by fastforce
    then have "filter (\<lambda>s. status_sb s = Buy_sb) ys = []"
      "filter (\<lambda>s. status_sb s = Alert_sb) ys = []"
      "filter (\<lambda>s. status_sb s = Watch_sb) ys = []"
      by (simp_all add: filter_empty_conv)
    with Hold_sb ih show ?thesis by simp
  qed
qed

lemma rank_groups:
  "rank rs = filter (\<lambda>s. status s = Buy) rs @ filter (\<lambda>s. status s = Alert) rs
            @ filter (\<lambda>s. status s = Near) rs @ filter (\<lambda>s. status s = Watch) rs"
proof -
  have "sorted (map (\<lambda>s. status_priority (status s)) (rank rs))"
    by (simp add: rank_sort_key)
  from sorted_by_status [OF this] show ?thesis
    by (simp only: rank_filter)
qed

lemma rank_sb_groups:
  "rank_sb rs = filter (\<lambda>s. status_sb s = Buy_sb) rs @ filter (\<lambda>s. status_sb s = Alert_sb) rs
            @ filter (\<lambda>s. status_sb s = Watch_sb) rs @ filter (\<lambda>s. status_sb s = Hold_sb) rs"
proof -
  have "sorted (map (\<lambda>s. status_priority_sb (status_sb s)) (rank_sb rs))"
    by (simp add: rank_sb_sort_key)
  from sorted_by_status_sb [OF this] show ?thesis
    by (simp only: rank_sb_filter)
qed

subsection \<open>Order and stability\<close>

text \<open>
  C6. The priorities are buy 0, alert 1, near 2, default 3 (in Stock Buddy: buy 0,
  alert 1, watch 2, hold 3), and every ranked list is in ascending priority: no entry
  comes after an entry of strictly lower priority.
\<close>

theorem rank_priority_order:
  "status_priority Buy = 0 \<and> status_priority Alert = 1 \<and> status_priority Near = 2
   \<and> status_priority Watch = 3
   \<and> sorted (map (\<lambda>s. status_priority (status s)) (rank rs))
   \<and> status_priority_sb Buy_sb = 0 \<and> status_priority_sb Alert_sb = 1
   \<and> status_priority_sb Watch_sb = 2 \<and> status_priority_sb Hold_sb = 3
   \<and> sorted (map (\<lambda>s. status_priority_sb (status_sb s)) (rank_sb rs'))"
  by (simp add: rank_sort_key rank_sb_sort_key)

theorem rank_priority_order_witness:
  "sorted (map (\<lambda>s. status_priority (status s)) (rank sample_results))
   \<and> map status (rank sample_results) = [Buy, Alert, Near, Watch, Watch]
   \<and> sorted (map (\<lambda>s. status_priority_sb (status_sb s)) (rank_sb (results_sb sample_data_sb)))
   \<and> map status_sb (rank_sb (results_sb sample_data_sb))
       = [Buy_sb, Alert_sb, Watch_sb, Hold_sb, Hold_sb]"
  using rank_priority_order [of sample_results "results_sb sample_data_sb"]
  by (simp add: rank_groups rank_sb_groups sample_results_def sample_data_sb_def results_sb_def
      WATCHLIST_def classify_status classify_sb_status truthy_def sample_entry_def
      sample_quote_def sample_quote_sb_def)

text \<open>
  C7. Ranking is stable: the entries of any one status stand in the ranked list in the
  order they had in the input. The priority of the status is the only key: the ranked
  list is the input's buy entries, then its alert entries, then its near entries, then
  its default entries, each group in input order.
\<close>

theorem rank_stable:
  "filter (\<lambda>s. status s = k) (rank rs) = filter (\<lambda>s. status s = k) rs
   \<and> rank rs = filter (\<lambda>s. status s = Buy) rs @ filter (\<lambda>s. status s = Alert) rs
               @ filter (\<lambda>s. status s = Near) rs @ filter (\<lambda>s. status s = Watch) rs
   \<and> filter (\<lambda>s. status_sb s = k') (rank_sb rs') = filter (\<lambda>s. status_sb s = k') rs'
   \<and> rank_sb rs' = filter (\<lambda>s. status_sb s = Buy_sb) rs' @ filter (\<lambda>s. status_sb s = Alert_sb) rs'
               @ filter (\<lambda>s. status_sb s = Watch_sb) rs' @ filter (\<lambda>s. status_sb s = Hold_sb) rs'"
  using rank_filter [of k rs] rank_groups [of rs] rank_sb_filter [of k' rs'] rank_sb_groups [of rs']
  by (intro conjI)

theorem rank_stable_witness:
  "map symbol sample_results = [''MSFT'', ''IONQ'', ''AMD'', ''TSLA'', ''NVDA'']
   \<and> map symbol (rank sample_results) = [''NVDA'', ''IONQ'', ''AMD'', ''MSFT'', ''TSLA'']
   \<and> map symbol (filter (\<lambda>s. status s = Watch) (rank sample_results)) = [''MSFT'', ''TSLA'']
   \<and> map symbol_sb (rank_sb (results_sb sample_data_sb))
       = [''NVDA'', ''IONQ'', ''AMD'', ''MSFT'', ''TSLA'']"
  using rank_stable [of Watch sample_results Hold_sb "results_sb sample_data_sb"]
  by (simp add: sample_results_def sample_data_sb_def results_sb_def WATCHLIST_def
      classify_status classify_sb_status truthy_def sample_entry_def sample_quote_def
      sample_quote_sb_def classify_def classify_sb_def Let_def)


section \<open>The fetch cycle\<close>

subsection \<open>Where the results come from\<close>

lemma classify_symbol: "symbol (classify w q) = symbol w"
  by (simp add: classify_def Let_def split: prod.splits)

lemma set_rank: "set (rank rs) = set rs"
  by (simp add: rank_sort_key)

lemma set_rank_sb: "set (rank_sb rs) = set rs"
  by (simp add: rank_sb_sort_key)

lemma results_Nil: "results wl [] = []"
  by (simp add: results_def)

lemma results_Cons:
  "results wl (q # data) =
     (case List.find (\<lambda>w. symbol w = quote_symbol q) wl of
        None \<Rightarrow> results wl data
      | Some w \<Rightarrow> classify w q # results wl data)"
  by (simp add: results_def classifyQuote_def split: option.splits)

lemma set_results:
  "set (results wl data)
     = {classify w q | w q. q \<in> set data \<and> List.find (\<lambda>w. symbol w = quote_symbol q) wl = Some w}"
proof (induction data)
  case Nil
  show ?case by (simp add: results_Nil)
next
  case (Cons a data)
  show ?case
  proof (cases "List.find (\<lambda>w. symbol w = quote_symbol a) wl")
    case None
    with Cons show ?thesis by (auto simp add: results_Cons)
  next
    case (Some v)
    with Cons show ?thesis by (auto simp add: results_Cons)
  qed
qed

lemma find_symbol:
  "List.find (\<lambda>w. symbol w = s) wl = Some w \<Longrightarrow> w \<in> set wl \<and> symbol w = s"
  by (auto simp add: find_Some_iff)

lemma find_symbol_ex:
  "w \<in> set wl \<Longrightarrow> \<exists>w'. List.find (\<lambda>v. symbol v = symbol w) wl = Some w'"
  by (cases "List.find (\<lambda>v. symbol v = symbol w) wl") (auto simp add: find_None_iff)

lemma results_symbols:
  "set (map symbol (results wl data)) = set (map symbol wl) \<inter> set (map quote_symbol data)"
proof (intro equalityI subsetI)
  fix x assume "x \<in> set (map symbol (results wl data))"
  then obtain w q where "q \<in> set data" "List.find (\<lambda>w. symbol w = quote_symbol q) wl = Some w"
    "x = symbol (classify w q)"
    by (auto simp add: set_results)
  moreover from this have "w \<in> set wl" "symbol w = quote_symbol q"
    using find_symbol [of "quote_symbol q" wl w] by simp_all
  ultimately have "x = symbol w" "x = quote_symbol q" "w \<in> set wl" "q \<in> set data"
    by (simp_all add: classify_symbol)
  then show "x \<in> set (map symbol wl) \<inter> set (map quote_symbol data)"
    by (simp add: image_iff) metis
next
  fix x assume "x \<in> set (map symbol wl) \<inter> set (map quote_symbol data)"
  then obtain w q where wq: "w \<in> set wl" "symbol w = x" "q \<in> set data" "quote_symbol q = x"
    by auto
  then obtain w' where f: "List.find (\<lambda>v. symbol v = quote_symbol q) wl = Some w'"
    using find_symbol_ex [of w wl] by auto
  then have "symbol w' = x"
    using find_symbol [of "quote_symbol q" wl w'] wq by simp
  moreover have "classify w' q \<in> set (results wl data)"
    unfolding set_results using f \<open>q \<in> set data\<close> by blast
  ultimately show "x \<in> set (map symbol (results wl data))"
    by (force simp add: classify_symbol)
qed

lemma results_origin:
  "s \<in> set (results wl data)
   \<Longrightarrow> \<exists>w \<in> set wl. \<exists>q \<in> set data. symbol w = quote_symbol q \<and> s = classify w q"
  by (auto simp add: set_results dest: find_symbol)

lemma fetch_success:
  "watchlist st \<noteq> [] \<Longrightarrow> ok code \<Longrightarrow> data \<noteq> []
   \<Longrightarrow> stocks (fetchStockData (Response code (Quotes data)) now st)
       = rank (results (watchlist st) data)"
  by (simp add: fetchStockData_def try_fetch_def Let_def)

lemma fetch_success_sb:
  "stocks_sb (fetchStockData_sb (Response code (Quotes data)) now rnd st)
     = rank_sb (results_sb data)"
  by (simp add: fetchStockData_sb_def try_fetch_sb_def Let_def)

lemma results_sb_symbols: "map symbol_sb (results_sb data) = map quote_symbol_sb data"
  by (simp add: results_sb_def classify_sb_def Let_def comp_def)

text \<open>
  Stock Buddy keeps a quote whose symbol is not in \<^verbatim>\<open>WATCHLIST\<close>: the lookup gives
  \<^verbatim>\<open>undefined\<close>, and the callback still returns an entry, under the quote's symbol.
\<close>

theorem unlisted_quote_kept_counterexample:
  "''ZZZ'' \<notin> set (map item_symbol WATCHLIST)
   \<and> map symbol_sb (stocks_sb (fetchStockData_sb
        (Response 200 (Quotes [sample_quote_sb ''ZZZ'' 10 1])) 0 sample_random initial_state_sb))
     = [''ZZZ'']"
  by (simp add: WATCHLIST_def fetch_success_sb rank_sb_def array_sort_def results_sb_def
      classify_sb_def Let_def sample_quote_sb_def)

text \<open>
  C8, as amended. In the watchlist dashboard the symbols of a cycle's result list are
  the watchlist symbols that have a quote in the response, and every result is the
  classification of a watchlist entry with a quote of the same symbol: a quote without
  an entry is discarded, an entry without a quote is absent. In Stock Buddy the symbols
  of the result list are the symbols of the quotes: every quote is kept, also one whose
  symbol is not in the watchlist, and an entry without a quote is absent.
\<close>

theorem results_from_watchlist:
  "(watchlist st \<noteq> [] \<and> ok code \<and> data \<noteq> []
      \<longrightarrow> set (map symbol (stocks (fetchStockData (Response code (Quotes data)) now st)))
            = set (map symbol (watchlist st)) \<inter> set (map quote_symbol data)
          \<and> (\<forall>s \<in> set (stocks (fetchStockData (Response code (Quotes data)) now st)).
               \<exists>w \<in> set (watchlist st). \<exists>q \<in> set data.
                 symbol w = quote_symbol q \<and> s = classify w q))
   \<and> set (map symbol_sb (stocks_sb (fetchStockData_sb (Response code' (Quotes data')) now' rnd st')))
       = set (map quote_symbol_sb data')"
proof (intro conjI impI ballI)
  assume h: "watchlist st \<noteq> [] \<and> ok code \<and> data \<noteq> []"
  then have eq: "stocks (fetchStockData (Response code (Quotes data)) now st)
       = rank (results (watchlist st) data)"
    by (simp add: fetch_success)
  have "set (map symbol (rank (results (watchlist st) data)))
      = set (map symbol (results (watchlist st) data))"
    by (simp only: set_map set_rank)
  with eq show "set (map symbol (stocks (fetchStockData (Response code (Quotes data)) now st)))
            = set (map symbol (watchlist st)) \<inter> set (map quote_symbol data)"
    by (simp only: results_symbols)
  fix s assume "s \<in> set (stocks (fetchStockData (Response code (Quotes data)) now st))"
  with eq have "s \<in> set (results (watchlist st) data)"
    by (simp add: set_rank)
  then show "\<exists>w \<in> set (watchlist st). \<exists>q \<in> set data. symbol w = quote_symbol q \<and> s = classify w q"
    by (rule results_origin)
next
  have "set (map symbol_sb (rank_sb (results_sb data'))) = set (map symbol_sb (results_sb data'))"
    by (simp only: set_map set_rank_sb)
  then show "set (map symbol_sb (stocks_sb (fetchStockData_sb (Response code' (Quotes data')) now' rnd st')))
       = set (map quote_symbol_sb data')"
    by (simp only: fetch_success_sb results_sb_symbols)
qed


theorem results_from_watchlist_witness:
  "watchlist (loadWatchlist (Some [sample_entry ''NVDA'' (Some 169), sample_entry ''MSFT'' None])
       initial_state) \<noteq> []
   \<and> ok 200
   \<and> [sample_quote ''ZZZ'' 10 1, sample_quote ''NVDA'' 165 1.2] \<noteq> []
   \<and> set (map symbol (stocks (fetchStockData
        (Response 200 (Quotes [sample_quote ''ZZZ'' 10 1, sample_quote ''NVDA'' 165 1.2])) 7
        (loadWatchlist (Some [sample_entry ''NVDA'' (Some 169), sample_entry ''MSFT'' None])
           initial_state)))) = {''NVDA''}
   \<and> set (map symbol_sb (stocks_sb (fetchStockData_sb
        (Response 200 (Quotes [sample_quote_sb ''ZZZ'' 10 1, sample_quote_sb ''NVDA'' 165 1.2]))
        7 sample_random initial_state_sb))) = {''ZZZ'', ''NVDA''}"
  using results_from_watchlist [of
      "loadWatchlist (Some [sample_entry ''NVDA'' (Some 169), sample_entry ''MSFT'' None])
         initial_state"
      200 "[sample_quote ''ZZZ'' 10 1, sample_quote ''NVDA'' 165 1.2]" 7
      200 "[sample_quote_sb ''ZZZ'' 10 1, sample_quote_sb ''NVDA'' 165 1.2]" 7 sample_random
      initial_state_sb]
  by (simp add: loadWatchlist_def initial_state_def ok_def sample_entry_def sample_quote_def
      sample_quote_sb_def)

subsection \<open>A failed cycle\<close>

lemma fetch_failure:
  assumes "watchlist st \<noteq> []"
    and "outcome = NetworkError
         \<or> (\<exists>code b. outcome = Response code b
               \<and> (\<not> ok code \<or> b = NotJson \<or> b = WrongShape \<or> b = Quotes []))"
  shows "fetchStockData outcome now st = st\<lparr>loading := False, error := Some QuoteFetchFailed\<rparr>"
proof -
  from assms(2) have "try_fetch (watchlist st) outcome = None"
    by (auto simp add: try_fetch_def)
  with assms(1) show ?thesis
    by (simp add: fetchStockData_def Let_def)
qed

lemma fetch_failure_sb:
  assumes "outcome = NetworkError
           \<or> (\<exists>code. outcome = Response code NotJson \<or> outcome = Response code WrongShape)"
  shows "fetchStockData_sb outcome now rnd st
           = st\<lparr>stocks_sb := mock_data rnd, loading_sb := False\<rparr>"
proof -
  from assms have "try_fetch_sb outcome = None"
    by (auto simp add: try_fetch_sb_def)
  then show ?thesis
    by (simp add: fetchStockData_sb_def Let_def)
qed

lemma mock_symbols: "map symbol_sb (mock_data rnd) = map item_symbol WATCHLIST"
  by (simp add: mock_data_def mock_entry_def WATCHLIST_def enumerate_eq_zip)

lemma mock_statuses: "s \<in> set (mock_data rnd) \<Longrightarrow> status_sb s = Hold_sb"
  by (auto simp add: mock_data_def mock_entry_def)

text \<open>
  In Stock Buddy a response with status 500 and an error body, coming after a
  successful cycle that showed one entry, replaces the list by ten placeholder entries.
\<close>

theorem failed_fetch_replaces_list_counterexample:
  "map symbol_sb (stocks_sb (fetchStockData_sb (Response 200 (Quotes [sample_quote_sb ''NVDA'' 165 1.2]))
        1 sample_random initial_state_sb)) = [''NVDA'']
   \<and> map symbol_sb (stocks_sb (fetchStockData_sb (Response 500 WrongShape) 2 sample_random
        (fetchStockData_sb (Response 200 (Quotes [sample_quote_sb ''NVDA'' 165 1.2]))
           1 sample_random initial_state_sb)))
     = [''NVDA'', ''AMD'', ''IONQ'', ''EOSE'', ''KEYS'', ''AVGO'', ''MSFT'', ''GOOG'', ''TSLA'', ''QLD'']"
  by (simp add: fetch_failure_sb mock_symbols fetch_success_sb rank_sb_def array_sort_def
      results_sb_def classify_sb_def Let_def sample_quote_sb_def)
    (simp add: WATCHLIST_def)

text \<open>
  C9, as amended. In the watchlist dashboard a cycle that fails (network error, status
  outside 200 to 299, a body that is not JSON or not an array, an empty array) ends with
  the error message set and loading cleared, and leaves the ranked list, the time of the
  last update and everything else as they were. In Stock Buddy a cycle that throws
  (network error, a body that is not JSON or has no result array) replaces the list by
  one placeholder entry for each watchlist entry, in watchlist order and all with status
  hold, and clears loading; there is no error message to set. Stock Buddy does not test
  the status: any response with a result array, also an empty one, is a success.
\<close>

theorem failed_fetch:
  "(watchlist st \<noteq> []
      \<and> (outcome = NetworkError
         \<or> (\<exists>code b. outcome = Response code b
               \<and> (\<not> ok code \<or> b = NotJson \<or> b = WrongShape \<or> b = Quotes [])))
      \<longrightarrow> fetchStockData outcome now st = st\<lparr>loading := False, error := Some QuoteFetchFailed\<rparr>
          \<and> stocks (fetchStockData outcome now st) = stocks st
          \<and> lastUpdate (fetchStockData outcome now st) = lastUpdate st
          \<and> error (fetchStockData outcome now st) = Some QuoteFetchFailed
          \<and> loading (fetchStockData outcome now st) = False)
   \<and> (outcome' = NetworkError
         \<or> (\<exists>code. outcome' = Response code NotJson \<or> outcome' = Response code WrongShape)
      \<longrightarrow> fetchStockData_sb outcome' now' rnd st'
            = st'\<lparr>stocks_sb := mock_data rnd, loading_sb := False\<rparr>
          \<and> map symbol_sb (stocks_sb (fetchStockData_sb outcome' now' rnd st'))
              = map item_symbol WATCHLIST
          \<and> (\<forall>s \<in> set (stocks_sb (fetchStockData_sb outcome' now' rnd st')). status_sb s = Hold_sb)
          \<and> loading_sb (fetchStockData_sb outcome' now' rnd st') = False)
   \<and> stocks_sb (fetchStockData_sb (Response code' (Quotes data)) now' rnd st')
       = rank_sb (results_sb data)"
proof (intro conjI impI)
  assume "watchlist st \<noteq> []
      \<and> (outcome = NetworkError
         \<or> (\<exists>code b. outcome = Response code b
               \<and> (\<not> ok code \<or> b = NotJson \<or> b = WrongShape \<or> b = Quotes [])))"
  then have eq: "fetchStockData outcome now st = st\<lparr>loading := False, error := Some QuoteFetchFailed\<rparr>"
    using fetch_failure [of st outcome now] by blast
  show "fetchStockData outcome now st = st\<lparr>loading := False, error := Some QuoteFetchFailed\<rparr>"
    by (rule eq)
  show "stocks (fetchStockData outcome now st) = stocks st"
    "lastUpdate (fetchStockData outcome now st) = lastUpdate st"
    "error (fetchStockData outcome now st) = Some QuoteFetchFailed"
    "loading (fetchStockData outcome now st) = False"
    by (simp_all add: eq)
next
  assume "outcome' = NetworkError
         \<or> (\<exists>code. outcome' = Response code NotJson \<or> outcome' = Response code WrongShape)"
  then have eq: "fetchStockData_sb outcome' now' rnd st'
            = st'\<lparr>stocks_sb := mock_data rnd, loading_sb := False\<rparr>"
    by (rule fetch_failure_sb)
  show "fetchStockData_sb outcome' now' rnd st'
            = st'\<lparr>stocks_sb := mock_data rnd, loading_sb := False\<rparr>"
    by (rule eq)
  show "map symbol_sb (stocks_sb (fetchStockData_sb outcome' now' rnd st'))
              = map item_symbol WATCHLIST"
    by (simp add: eq mock_symbols)
  show "\<forall>s \<in> set (stocks_sb (fetchStockData_sb outcome' now' rnd st')). status_sb s = Hold_sb"
    by (simp add: eq mock_statuses)
  show "loading_sb (fetchStockData_sb outcome' now' rnd st') = False"
    by (simp add: eq)
next
  show "stocks_sb (fetchStockData_sb (Response code' (Quotes data)) now' rnd st')
       = rank_sb (results_sb data)"
    by (rule fetch_success_sb)
qed


lemma sample_state_eq:
  "sample_state =
     \<lparr> stocks = [classify (sample_entry ''NVDA'' (Some 169)) (sample_quote ''NVDA'' 165 1.2)],
       loading = False, lastUpdate = Some 1, expandedSymbol = None,
       watchlist = [sample_entry ''NVDA'' (Some 169)], error = None \<rparr>"
  by (simp add: sample_state_def fetchStockData_def try_fetch_def ok_def loadWatchlist_def
      initial_state_def results_def classifyQuote_def rank_def array_sort_def Let_def
      sample_entry_def sample_quote_def)

theorem failed_fetch_witness:
  "watchlist sample_state \<noteq> [] \<and> \<not> ok 500
   \<and> map symbol (stocks sample_state) = [''NVDA'']
   \<and> stocks (fetchStockData (Response 500 WrongShape) 2 sample_state) = stocks sample_state
   \<and> lastUpdate (fetchStockData (Response 500 WrongShape) 2 sample_state) = Some 1
   \<and> error (fetchStockData (Response 500 WrongShape) 2 sample_state) = Some QuoteFetchFailed
   \<and> loading (fetchStockData (Response 500 WrongShape) 2 sample_state) = False
   \<and> length (stocks_sb (fetchStockData_sb (Response 500 WrongShape) 2 sample_random initial_state_sb))
       = 10
   \<and> stocks_sb (fetchStockData_sb (Response 500 (Quotes [])) 2 sample_random initial_state_sb) = []"
  using failed_fetch [of sample_state "Response 500 WrongShape" 2 "Response 500 WrongShape" 2
      sample_random initial_state_sb 500 "[]"]
  by (simp add: sample_state_eq ok_def classify_symbol sample_entry_def mock_data_def
      WATCHLIST_def rank_sb_def array_sort_def results_sb_def)

end
